theory Spec2Isabelle
  imports Main
begin

section \<open>Requests, responses and JSON values\<close>

text \<open>
  The handlers answer with \<open>res.status(n).json(v)\<close> or \<open>res.status(n).send()\<close>. A response is
  the status code and the JSON value sent (none for \<open>send()\<close>). A JSON object is the list of
  its keys and values in the order the object literal writes them, so that the presence of a
  key can be asked of it.
\<close>

datatype json = JNull | JNum int | JStr string | JArr "json list" | JObj "(string \<times> json) list"

record response =
  status :: nat
  payload :: "json option"

definition reply :: "nat \<Rightarrow> json \<Rightarrow> response" where
  "reply n v = \<lparr>status = n, payload = Some v\<rparr>"

definition error_reply :: "nat \<Rightarrow> string \<Rightarrow> response" where
  "error_reply n msg = reply n (JObj [(''error'', JStr msg)])"

text \<open>\<open>toHaveProperty\<close> of the test suites: the value is an object that has the key.\<close>

fun has_property :: "string \<Rightarrow> json \<Rightarrow> bool" where
  "has_property k (JObj kvs) = (k \<in> fst ` set kvs)"
| "has_property k _ = False"

text \<open>
  The request body after \<open>express.json()\<close>, destructured as \<open>{ name, email, password }\<close>.
  The fields are text (\<open>interface User\<close>); \<open>None\<close> is a field that is absent
  (\<open>undefined\<close>) or \<open>null\<close>.
\<close>

record body =
  name :: "string option"
  email :: "string option"
  password :: "string option"

text \<open>JavaScript's \<open>!x\<close> on such a field: true for \<open>undefined\<close> and for the empty string.\<close>

fun falsy :: "string option \<Rightarrow> bool" where
  "falsy None = True"
| "falsy (Some s) = (s = [])"

section \<open>The in-memory array variant\<close>

text \<open>
  \<open>let users = []\<close> holds objects \<open>{ id, name, email, password }\<close>. \<open>res.json(user)\<close>
  writes every own property of the object.
\<close>

record user =
  user_id :: int
  user_name :: string
  user_email :: string
  user_password :: string

definition user_json :: "user \<Rightarrow> json" where
  "user_json u = JObj [(''id'', JNum (user_id u)), (''name'', JStr (user_name u)),
                       (''email'', JStr (user_email u)), (''password'', JStr (user_password u))]"

text \<open>
  \<open>Array.prototype.findIndex\<close>: the index of the first element that satisfies the
  predicate, \<open>-1\<close> when there is none.
\<close>

fun findIndex :: "('a \<Rightarrow> bool) \<Rightarrow> 'a list \<Rightarrow> int" where
  "findIndex P [] = - 1"
| "findIndex P (x # xs) =
     (if P x then 0 else (let i = findIndex P xs in if i = - 1 then - 1 else i + 1))"

text \<open>
  \<open>parseInt(req.params.id)\<close> is a number or \<open>NaN\<close>; the handlers take it as
  \<open>int option\<close>, \<open>None\<close> for \<open>NaN\<close>. \<open>u.id === userId\<close> is false for \<open>NaN\<close>.
\<close>

definition id_is :: "int option \<Rightarrow> user \<Rightarrow> bool" where
  "id_is userId u = (Some (user_id u) = userId)"

text \<open>
  \<open>bcrypt.hash(password, saltRounds)\<close> belongs to the bcrypt library and draws a random
  salt. Every handler takes as \<open>hash\<close> what that call answers during the request.
\<close>

definition post_users :: "(string \<Rightarrow> string) \<Rightarrow> body \<Rightarrow> user list \<Rightarrow> response \<times> user list" where
  "post_users hash b users =
     (if falsy (name b) \<or> falsy (email b) \<or> falsy (password b)
      then (error_reply 400 ''Missing required fields'', users)
      else
        (let hashedPassword = hash (the (password b));
             newUser = \<lparr>user_id = int (length users) + 1, user_name = the (name b),
                        user_email = the (email b), user_password = hashedPassword\<rparr>
         in (reply 201 (user_json newUser), users @ [newUser])))"

definition get_users :: "user list \<Rightarrow> response \<times> user list" where
  "get_users users = (reply 200 (JArr (map user_json users)), users)"

definition get_user :: "int option \<Rightarrow> user list \<Rightarrow> response \<times> user list" where
  "get_user userId users =
     (case find (id_is userId) users of
        None \<Rightarrow> (error_reply 404 ''User not found'', users)
      | Some u \<Rightarrow> (reply 200 (user_json u), users))"

text \<open>
  The update handler runs in two parts. Up to \<open>await bcrypt.hash(...)\<close> it validates the
  body and reads \<open>userIndex\<close> with \<open>findIndex\<close>; there it answers 400 or 404 itself, or
  it waits for the hash with the index in hand. While it waits, other requests are served.
\<close>

datatype lookup = Answered response | Awaiting nat

definition put_user_lookup :: "int option \<Rightarrow> body \<Rightarrow> user list \<Rightarrow> lookup" where
  "put_user_lookup userId b users =
     (if falsy (name b) \<or> falsy (email b) \<or> falsy (password b)
      then Answered (error_reply 400 ''Missing required fields'')
      else
        (let userIndex = findIndex (id_is userId) users
         in if userIndex = - 1 then Answered (error_reply 404 ''User not found'')
            else Awaiting (nat userIndex)))"

text \<open>
  After the \<open>await\<close> the handler writes \<open>users[userIndex] = updatedUser\<close> into the array
  as it is by then, and answers 200. A write at an index below the length replaces the
  element; a write at or beyond the length extends the array, and leaves holes (\<open>None\<close>)
  between the old end and the index.
\<close>

definition put_user_write ::
  "(string \<Rightarrow> string) \<Rightarrow> int option \<Rightarrow> body \<Rightarrow> nat \<Rightarrow> user list \<Rightarrow> response \<times> user option list" where
  "put_user_write hash userId b userIndex users =
     (let hashedPassword = hash (the (password b));
          updatedUser = \<lparr>user_id = the userId, user_name = the (name b),
                         user_email = the (email b), user_password = hashedPassword\<rparr>
      in (reply 200 (user_json updatedUser),
          if userIndex < length users then map Some (users[userIndex := updatedUser])
          else map Some users @ replicate (userIndex - length users) None @ [Some updatedUser]))"

text \<open>The elements of an array, its holes left out.\<close>

fun present :: "'a option list \<Rightarrow> 'a list" where
  "present [] = []"
| "present (None # xs) = present xs"
| "present (Some x # xs) = x # present xs"

text \<open>
  \<open>put_user\<close> is the update handler served alone: no other request is served between its
  lookup and its write, so the write meets the array of the lookup.
\<close>

definition put_user :: "(string \<Rightarrow> string) \<Rightarrow> int option \<Rightarrow> body \<Rightarrow> user list \<Rightarrow> response \<times> user list" where
  "put_user hash userId b users =
     (case put_user_lookup userId b users of
        Answered r \<Rightarrow> (r, users)
      | Awaiting userIndex \<Rightarrow>
          (case put_user_write hash userId b userIndex users of (r, arr) \<Rightarrow> (r, present arr)))"

definition delete_user :: "int option \<Rightarrow> user list \<Rightarrow> response \<times> user list" where
  "delete_user userId users =
     (let userIndex = findIndex (id_is userId) users
      in if userIndex = - 1 then (error_reply 404 ''User not found'', users)
         else (\<lparr>status = 204, payload = None\<rparr>,
               take (nat userIndex) users @ drop (nat userIndex + 1) users))"

text \<open>
  A sequence of requests against the array, served one after the other. Each request comes
  with what \<open>bcrypt.hash\<close> answers while it is handled.
\<close>

datatype request =
    Post body
  | GetAll
  | Get "int option"
  | Put "int option" body
  | Delete "int option"

fun handle :: "(string \<Rightarrow> string) \<Rightarrow> request \<Rightarrow> user list \<Rightarrow> response \<times> user list" where
  "handle hash (Post b) users = post_users hash b users"
| "handle hash GetAll users = get_users users"
| "handle hash (Get i) users = get_user i users"
| "handle hash (Put i b) users = put_user hash i b users"
| "handle hash (Delete i) users = delete_user i users"

fun run :: "((string \<Rightarrow> string) \<times> request) list \<Rightarrow> user list \<Rightarrow> user list" where
  "run [] users = users"
| "run ((hash, r) # rs) users = run rs (snd (handle hash r users))"

section \<open>The in-memory map store\<close>













section \<open>The relational variant: the update handler\<close>

text \<open>
  \<open>client.query\<close> is the database driver's. The handler takes as \<open>query\<close> what the
  \<open>UPDATE ... RETURNING *\<close> statement answers for the parameters
  \<open>[name, email, hashedPassword, userId]\<close>: the returned rows, or an error, which goes to
  \<open>next(error)\<close> and the error middleware. \<open>hash\<close> stands for \<open>bcrypt.genSalt(12)\<close>
  followed by \<open>bcrypt.hash(password, salt)\<close>.
\<close>

datatype query_result = QueryError | Rows "json list"

definition put_user_sql ::
  "(string \<Rightarrow> string) \<Rightarrow> (string option \<Rightarrow> string option \<Rightarrow> string option \<Rightarrow> int \<Rightarrow> query_result)
     \<Rightarrow> int option \<Rightarrow> body \<Rightarrow> response" where
  "put_user_sql hash query userId b =
     (case userId of
        None \<Rightarrow> error_reply 400 ''Invalid user ID''
      | Some i \<Rightarrow>
          if falsy (name b) \<and> falsy (email b) \<and> falsy (password b)
          then error_reply 400 ''No fields to update''
          else
            (let hashedPassword = (if falsy (password b) then None else Some (hash (the (password b))))
             in case query (name b) (email b) hashedPassword i of
                  QueryError \<Rightarrow> error_reply 500 ''Internal server error''
                | Rows [] \<Rightarrow> error_reply 404 ''User not found''
                | Rows (row # _) \<Rightarrow> reply 200 row))"

text \<open>
  The statement the handler sends,
  \<^verbatim>\<open>UPDATE users SET name = COALESCE($1, name), email = COALESCE($2, email),
  password = COALESCE($3, password) WHERE id = $4 RETURNING *\<close>,
  read on a table whose rows have the columns of \<open>interface User\<close>: every row with the
  given \<open>id\<close> gets the parameters that are not \<open>NULL\<close> and is returned with all its
  columns.
\<close>

definition coalesce :: "string option \<Rightarrow> string \<Rightarrow> string" where
  "coalesce v old = (case v of None \<Rightarrow> old | Some x \<Rightarrow> x)"

definition update_returning ::
  "user list \<Rightarrow> string option \<Rightarrow> string option \<Rightarrow> string option \<Rightarrow> int \<Rightarrow> query_result" where
  "update_returning table n e p i =
     Rows (map (\<lambda>u. user_json \<lparr>user_id = user_id u, user_name = coalesce n (user_name u),
                                 user_email = coalesce e (user_email u),
                                 user_password = coalesce p (user_password u)\<rparr>)
               (filter (\<lambda>u. user_id u = i) table))"

section \<open>The document-store variant: validation and creation\<close>

text \<open>
  \<open>validateInput\<close> is the middleware in front of both \<open>POST /users\<close> and
  \<open>PUT /users/:id\<close>: it answers itself (\<open>Some\<close>) or calls \<open>next()\<close> (\<open>None\<close>).
\<close>

definition validateInput :: "body \<Rightarrow> response option" where
  "validateInput b =
     (if falsy (name b) \<or> falsy (email b) \<or> falsy (password b)
      then Some (error_reply 400 ''Missing required fields'')
      else None)"

text \<open>
  The collection is Mongoose's. Its model follows the schema the source declares:
  documents \<open>{ _id, name, email, password }\<close> with \<open>email: { unique: true }\<close>, so that
  \<open>save()\<close> of a document whose email is already stored throws the duplicate-key error,
  whose \<open>code\<close> is 11000, and stores nothing. The identifier \<open>_id\<close> is drawn by the driver
  when the document is built, and is an input here.
\<close>

record doc =
  doc_id :: string
  doc_name :: string
  doc_email :: string
  doc_password :: string

definition save :: "doc \<Rightarrow> doc list \<Rightarrow> nat + doc list" where
  "save d coll = (if doc_email d \<in> doc_email ` set coll then Inl 11000 else Inr (coll @ [d]))"

definition post_users_doc ::
  "(string \<Rightarrow> string) \<Rightarrow> string \<Rightarrow> body \<Rightarrow> doc list \<Rightarrow> response \<times> doc list" where
  "post_users_doc hash oid b coll =
     (case validateInput b of
        Some r \<Rightarrow> (r, coll)
      | None \<Rightarrow>
          (let hashedPassword = hash (the (password b));
               newUser = \<lparr>doc_id = oid, doc_name = the (name b), doc_email = the (email b),
                          doc_password = hashedPassword\<rparr>
           in case save newUser coll of
                Inr coll' \<Rightarrow> (reply 201 (JObj [(''message'', JStr ''User created successfully'')]), coll')
              | Inl code \<Rightarrow>
                  if code = 11000 then (error_reply 409 ''Email already exists'', coll)
                  else (error_reply 500 ''Internal server error'', coll)))"

section \<open>Predicates used in the statements\<close>

text \<open>
  A body that passes the check \<open>!name || !email || !password\<close> of the create handlers, of
  the array variant's update handler and of \<open>validateInput\<close>.
\<close>

definition complete :: "body \<Rightarrow> bool" where
  "complete b = (\<not> falsy (name b) \<and> \<not> falsy (email b) \<and> \<not> falsy (password b))"

section \<open>Facts about the array variant\<close>


lemma findIndex_bounds: "- 1 \<le> findIndex P xs \<and> findIndex P xs < int (length xs)"
  by (induction xs) (auto simp: Let_def)

lemma findIndex_none: "(findIndex P xs = - 1) = (\<forall>x\<in>set xs. \<not> P x)"
proof (induction xs)
  case Nil
  then show ?case by simp
next
  case (Cons x xs)
  from findIndex_bounds[of P xs] have "findIndex P xs + 1 \<noteq> - 1" by arith
  with Cons show ?case by (auto simp: Let_def)
qed

lemma findIndex_sat: "findIndex P xs \<noteq> - 1 \<Longrightarrow> P (xs ! nat (findIndex P xs))"
proof (induction xs)
  case Nil
  then show ?case by simp
next
  case (Cons x xs)
  show ?case
  proof (cases "P x")
    case True
    then show ?thesis by simp
  next
    case False
    with Cons.prems have ne: "findIndex P xs \<noteq> - 1" by (auto simp: Let_def split: if_splits)
    with findIndex_bounds[of P xs] have ge: "0 \<le> findIndex P xs" by arith
    from False ne have "findIndex P (x # xs) = findIndex P xs + 1" by (simp add: Let_def)
    moreover from ge have "nat (findIndex P xs + 1) = Suc (nat (findIndex P xs))" by arith
    ultimately show ?thesis using Cons.IH[OF ne] by simp
  qed
qed

lemma findIndex_lt: "findIndex P xs \<noteq> - 1 \<Longrightarrow> nat (findIndex P xs) < length xs"
  using findIndex_bounds[of P xs] by arith

lemma present_map_Some: "present (map Some xs) = xs"
  by (induction xs) simp_all

text \<open>Served alone, the update handler is one step on the array.\<close>

lemma put_user_alone:
  "put_user hash userId b users =
     (if falsy (name b) \<or> falsy (email b) \<or> falsy (password b)
      then (error_reply 400 ''Missing required fields'', users)
      else
        (let userIndex = findIndex (id_is userId) users
         in if userIndex = - 1 then (error_reply 404 ''User not found'', users)
            else
              (let hashedPassword = hash (the (password b));
                   updatedUser = \<lparr>user_id = the userId, user_name = the (name b),
                                  user_email = the (email b), user_password = hashedPassword\<rparr>
               in (reply 200 (user_json updatedUser), users[nat userIndex := updatedUser]))))"
  by (simp add: put_user_def put_user_lookup_def put_user_write_def Let_def present_map_Some
      findIndex_lt)


lemma post_users_complete:
  "complete b \<Longrightarrow> post_users hash b users =
     (reply 201 (user_json \<lparr>user_id = int (length users) + 1, user_name = the (name b),
         user_email = the (email b), user_password = hash (the (password b))\<rparr>),
      users @ [\<lparr>user_id = int (length users) + 1, user_name = the (name b),
         user_email = the (email b), user_password = hash (the (password b))\<rparr>])"
  by (simp add: post_users_def complete_def Let_def)

lemma post_users_incomplete:
  "\<not> complete b \<Longrightarrow> post_users hash b users = (error_reply 400 ''Missing required fields'', users)"
  by (auto simp: post_users_def complete_def)





lemma put_user_unknown:
  "complete b \<Longrightarrow> \<forall>u\<in>set users. \<not> id_is userId u \<Longrightarrow>
     put_user hash userId b users = (error_reply 404 ''User not found'', users)"
  by (simp add: put_user_alone complete_def findIndex_none)

lemma put_user_incomplete:
  "\<not> complete b \<Longrightarrow> put_user hash userId b users = (error_reply 400 ''Missing required fields'', users)"
  by (auto simp: put_user_alone complete_def)

lemma put_user_known:
  assumes c: "complete b" and known: "\<exists>u\<in>set users. id_is userId u"
  shows "put_user hash userId b users =
           (reply 200 (user_json \<lparr>user_id = the userId, user_name = the (name b),
               user_email = the (email b), user_password = hash (the (password b))\<rparr>),
            users[nat (findIndex (id_is userId) users) :=
               \<lparr>user_id = the userId, user_name = the (name b),
                user_email = the (email b), user_password = hash (the (password b))\<rparr>])"
proof -
  from known have "findIndex (id_is userId) users \<noteq> - 1" by (simp add: findIndex_none)
  with c show ?thesis by (simp add: put_user_alone complete_def Let_def)
qed

lemma status_reply [simp]: "status (reply n v) = n" "status (error_reply n m) = n"
  by (simp_all add: reply_def error_reply_def)

lemma put_user_200:
  assumes ok: "status (fst (put_user hash userId b users)) = 200"
  shows "complete b \<and> (\<exists>u\<in>set users. id_is userId u)"
proof -
  have c: "complete b"
  proof (rule ccontr)
    assume "\<not> complete b"
    from put_user_incomplete[OF this, of hash userId users] ok show False by simp
  qed
  have "\<exists>u\<in>set users. id_is userId u"
  proof (rule ccontr)
    assume "\<not> (\<exists>u\<in>set users. id_is userId u)"
    then have "\<forall>u\<in>set users. \<not> id_is userId u" by simp
    from put_user_unknown[OF c this, of hash] ok show False by simp
  qed
  with c show ?thesis ..
qed

lemma put_user_ids:
  assumes ok: "status (fst (put_user hash userId b users)) = 200"
  shows "map user_id (snd (put_user hash userId b users)) = map user_id users"
proof -
  let ?i = "nat (findIndex (id_is userId) users)"
  from put_user_200[OF ok] have c: "complete b" and known: "\<exists>u\<in>set users. id_is userId u"
    by simp_all
  from known have ne: "findIndex (id_is userId) users \<noteq> - 1" by (simp add: findIndex_none)
  then have lt: "?i < length users" by (rule findIndex_lt)
  from ne have "id_is userId (users ! ?i)" by (rule findIndex_sat)
  then have same: "the userId = user_id (users ! ?i)" by (cases userId) (auto simp: id_is_def)
  show ?thesis
    unfolding put_user_known[OF c known] using lt same
    by (simp add: map_update list_update_same_conv)
qed

text \<open>
  Where two stored accounts share an identifier, a delete removes the first of them only,
  and a read of that identifier still finds the other.
\<close>

lemma read_after_delete_with_shared_identifier:
  "get_user (Some 2) (snd (delete_user (Some 2)
      (run [(h1, Post \<lparr>name = Some ''A'', email = Some ''a@x'', password = Some ''pa''\<rparr>),
            (h2, Post \<lparr>name = Some ''B'', email = Some ''b@x'', password = Some ''pb''\<rparr>),
            (h3, Delete (Some 1)),
            (h4, Post \<lparr>name = Some ''C'', email = Some ''c@x'', password = Some ''pc''\<rparr>)] [])))
   = (reply 200 (user_json \<lparr>user_id = 2, user_name = ''C'', user_email = ''c@x'',
                   user_password = h4 ''pc''\<rparr>),
      [\<lparr>user_id = 2, user_name = ''C'', user_email = ''c@x'', user_password = h4 ''pc''\<rparr>])"
  by (simp add: post_users_def delete_user_def get_user_def id_is_def Let_def)

section \<open>Creation requires the three fields\<close>

text \<open>
  Claim C4. A create request succeeds (status 201) only when \<open>name\<close>, \<open>email\<close> and
  \<open>password\<close> are all present and non-empty. When one of them is absent or empty the
  request is answered 400 with \<open>{ error: 'Missing required fields' }\<close>, the transport form
  of the validation error, and the store is returned as it was: the array of the in-memory
  variant, and the collection behind \<open>validateInput\<close> in the document-store variant.
\<close>

theorem create_requires_all_fields:
  "(status (fst (post_users hash b users)) = 201 \<longleftrightarrow> complete b) \<and>
   (\<not> complete b \<longrightarrow>
      post_users hash b users = (error_reply 400 ''Missing required fields'', users)) \<and>
   (status (fst (post_users_doc hash oid b coll)) = 201 \<longrightarrow> complete b) \<and>
   (\<not> complete b \<longrightarrow>
      post_users_doc hash oid b coll = (error_reply 400 ''Missing required fields'', coll))"
proof -
  have doc_bad: "post_users_doc hash oid b coll = (error_reply 400 ''Missing required fields'', coll)"
    if "\<not> complete b"
    using that by (auto simp: post_users_doc_def validateInput_def complete_def)
  have arr: "status (fst (post_users hash b users)) = 201 \<longleftrightarrow> complete b"
  proof (cases "complete b")
    case True
    then show ?thesis by (simp add: post_users_complete)
  next
    case False
    then show ?thesis by (simp add: post_users_incomplete)
  qed
  have doc: "complete b" if "status (fst (post_users_doc hash oid b coll)) = 201"
  proof (rule ccontr)
    assume "\<not> complete b"
    from doc_bad[OF this] that show False by simp
  qed
  from arr doc doc_bad show ?thesis by (simp add: post_users_incomplete)
qed

theorem create_requires_all_fields_witness:
  "\<not> complete \<lparr>name = Some ''John Doe'', email = Some ''john@example.com'', password = None\<rparr> \<and>
   post_users (append ''$2b$12$'')
      \<lparr>name = Some ''John Doe'', email = Some ''john@example.com'', password = None\<rparr> []
     = (error_reply 400 ''Missing required fields'', []) \<and>
   post_users_doc (append ''$2b$12$'') ''63f9c6f9''
      \<lparr>name = Some ''John Doe'', email = Some ''john@example.com'', password = None\<rparr> []
     = (error_reply 400 ''Missing required fields'', []) \<and>
   complete \<lparr>name = Some ''John Doe'', email = Some ''john@example.com'', password = Some ''password123''\<rparr> \<and>
   status (fst (post_users (append ''$2b$12$'')
      \<lparr>name = Some ''John Doe'', email = Some ''john@example.com'', password = Some ''password123''\<rparr> [])) = 201"
  using create_requires_all_fields
          [of "append ''$2b$12$''"
              "\<lparr>name = Some ''John Doe'', email = Some ''john@example.com'', password = None\<rparr>"
              "[]" "''63f9c6f9''" "[]"]
        create_requires_all_fields
          [of "append ''$2b$12$''"
              "\<lparr>name = Some ''John Doe'', email = Some ''john@example.com'', password = Some ''password123''\<rparr>"
              "[]" "''63f9c6f9''" "[]"]
  by (simp add: complete_def)



section \<open>What a response of the array variant contains\<close>

text \<open>
  Claim C1, evaluated on the array variant at the request of its own test
  \<open>should create a new user\<close>, for whatever \<open>bcrypt.hash\<close> answers. The claim (and the
  test, with \<open>expect(response.body).not.toHaveProperty('password')\<close>) asks that the response
  has no key for the credential hash. The response of the create request is the stored
  object itself, and has the key \<open>password\<close> holding the hash; so has the response of the
  read request that follows.
\<close>

theorem create_response_carries_hash:
  "post_users hash
      \<lparr>name = Some ''John Doe'', email = Some ''john@example.com'', password = Some ''password123''\<rparr> []
     = (reply 201 (JObj [(''id'', JNum 1), (''name'', JStr ''John Doe''),
                         (''email'', JStr ''john@example.com''),
                         (''password'', JStr (hash ''password123''))]),
        [\<lparr>user_id = 1, user_name = ''John Doe'', user_email = ''john@example.com'',
          user_password = hash ''password123''\<rparr>]) \<and>
   has_property ''password''
     (JObj [(''id'', JNum 1), (''name'', JStr ''John Doe''), (''email'', JStr ''john@example.com''),
            (''password'', JStr (hash ''password123''))]) \<and>
   get_user (Some 1)
      [\<lparr>user_id = 1, user_name = ''John Doe'', user_email = ''john@example.com'',
        user_password = hash ''password123''\<rparr>]
     = (reply 200 (JObj [(''id'', JNum 1), (''name'', JStr ''John Doe''),
                         (''email'', JStr ''john@example.com''),
                         (''password'', JStr (hash ''password123''))]),
        [\<lparr>user_id = 1, user_name = ''John Doe'', user_email = ''john@example.com'',
          user_password = hash ''password123''\<rparr>])"
  by (simp add: post_users_def get_user_def user_json_def id_is_def Let_def)

section \<open>Identifiers assigned by the array variant\<close>

text \<open>
  Claim C9. In the array variant a successful create stores the new account under the
  identifier \<open>users.length + 1\<close>. Consequently the run create, create, delete of
  identifier 1, create (a delete of another account than the most recently created one,
  followed by a create) ends with two stored accounts, at positions 0 and 1, that both hold
  the identifier 2.
\<close>

theorem create_id_is_length_plus_one:
  "(complete b \<longrightarrow>
      (\<exists>u. post_users hash b users = (reply 201 (user_json u), users @ [u]) \<and>
           user_id u = int (length users) + 1)) \<and>
   (complete b1 \<and> complete b2 \<and> complete b3 \<longrightarrow>
      length (run [(h1, Post b1), (h2, Post b2), (h3, Delete (Some 1)), (h4, Post b3)] []) = 2 \<and>
      user_id (run [(h1, Post b1), (h2, Post b2), (h3, Delete (Some 1)), (h4, Post b3)] [] ! 0) = 2 \<and>
      user_id (run [(h1, Post b1), (h2, Post b2), (h3, Delete (Some 1)), (h4, Post b3)] [] ! 1) = 2)"
proof -
  have one: "\<exists>u. post_users hash b users = (reply 201 (user_json u), users @ [u]) \<and>
           user_id u = int (length users) + 1" if "complete b"
    using post_users_complete[OF that, of hash users] by simp
  have two: "length (run [(h1, Post b1), (h2, Post b2), (h3, Delete (Some 1)), (h4, Post b3)] []) = 2 \<and>
      user_id (run [(h1, Post b1), (h2, Post b2), (h3, Delete (Some 1)), (h4, Post b3)] [] ! 0) = 2 \<and>
      user_id (run [(h1, Post b1), (h2, Post b2), (h3, Delete (Some 1)), (h4, Post b3)] [] ! 1) = 2"
    if "complete b1" "complete b2" "complete b3"
    using that by (simp add: post_users_complete delete_user_def id_is_def Let_def)
  from one two show ?thesis by blast
qed

theorem create_id_is_length_plus_one_witness:
  "complete \<lparr>name = Some ''A'', email = Some ''a@x'', password = Some ''pa''\<rparr> \<and>
   complete \<lparr>name = Some ''B'', email = Some ''b@x'', password = Some ''pb''\<rparr> \<and>
   complete \<lparr>name = Some ''C'', email = Some ''c@x'', password = Some ''pc''\<rparr> \<and>
   run [(rev, Post \<lparr>name = Some ''A'', email = Some ''a@x'', password = Some ''pa''\<rparr>),
        (rev, Post \<lparr>name = Some ''B'', email = Some ''b@x'', password = Some ''pb''\<rparr>),
        (rev, Delete (Some 1)),
        (rev, Post \<lparr>name = Some ''C'', email = Some ''c@x'', password = Some ''pc''\<rparr>)] []
     = [\<lparr>user_id = 2, user_name = ''B'', user_email = ''b@x'', user_password = ''bp''\<rparr>,
        \<lparr>user_id = 2, user_name = ''C'', user_email = ''c@x'', user_password = ''cp''\<rparr>] \<and>
   length (run [(rev, Post \<lparr>name = Some ''A'', email = Some ''a@x'', password = Some ''pa''\<rparr>),
        (rev, Post \<lparr>name = Some ''B'', email = Some ''b@x'', password = Some ''pb''\<rparr>),
        (rev, Delete (Some 1)),
        (rev, Post \<lparr>name = Some ''C'', email = Some ''c@x'', password = Some ''pc''\<rparr>)] []) = 2"
  using create_id_is_length_plus_one
          [of "\<lparr>name = Some ''A'', email = Some ''a@x'', password = Some ''pa''\<rparr>" rev "[]"
              "\<lparr>name = Some ''A'', email = Some ''a@x'', password = Some ''pa''\<rparr>"
              "\<lparr>name = Some ''B'', email = Some ''b@x'', password = Some ''pb''\<rparr>"
              "\<lparr>name = Some ''C'', email = Some ''c@x'', password = Some ''pc''\<rparr>"
              rev rev rev rev]
  by (simp add: complete_def post_users_def delete_user_def id_is_def Let_def)

section \<open>The map store's update\<close>





section \<open>A second account with a stored address\<close>

text \<open>
  Claim C5 as stated fails on the array variant, which compares no addresses: a create
  whose \<open>email\<close> is the one of a stored account is answered 201 and the array gains the
  account.
\<close>

theorem duplicate_address_counterexample:
  "post_users (append ''$2b$12$'')
      \<lparr>name = Some ''Jane Doe'', email = Some ''john@example.com'', password = Some ''secret''\<rparr>
      [\<lparr>user_id = 1, user_name = ''John Doe'', user_email = ''john@example.com'',
        user_password = ''$2b$12$password123''\<rparr>]
     = (reply 201 (user_json \<lparr>user_id = 2, user_name = ''Jane Doe'',
                     user_email = ''john@example.com'', user_password = ''$2b$12$secret''\<rparr>),
        [\<lparr>user_id = 1, user_name = ''John Doe'', user_email = ''john@example.com'',
          user_password = ''$2b$12$password123''\<rparr>,
         \<lparr>user_id = 2, user_name = ''Jane Doe'', user_email = ''john@example.com'',
          user_password = ''$2b$12$secret''\<rparr>])"
  by (simp add: post_users_def Let_def)

text \<open>
  Claim C5, amended. In the document-store variant a create with a complete body whose
  \<open>email\<close> is the one of a stored document is answered 409 with
  \<open>{ error: 'Email already exists' }\<close>, a response other than the 400 of a validation
  failure, and the collection is returned as it was. The array variant has no such check:
  there every create with a complete body is answered 201 and adds one account.
\<close>

theorem duplicate_address_conflict:
  "(complete b \<and> the (email b) \<in> doc_email ` set coll \<longrightarrow>
      post_users_doc hash oid b coll = (error_reply 409 ''Email already exists'', coll)) \<and>
   error_reply 409 ''Email already exists'' \<noteq> error_reply 400 ''Missing required fields'' \<and>
   (complete b \<longrightarrow>
      status (fst (post_users hash b users)) = 201 \<and>
      length (snd (post_users hash b users)) = length users + 1)"
proof -
  have conflict: "post_users_doc hash oid b coll = (error_reply 409 ''Email already exists'', coll)"
    if "complete b" and "the (email b) \<in> doc_email ` set coll"
    using that by (simp add: post_users_doc_def validateInput_def complete_def save_def Let_def)
  have differ: "error_reply 409 ''Email already exists'' \<noteq> error_reply 400 ''Missing required fields''"
    by (simp add: error_reply_def reply_def)
  have arr: "status (fst (post_users hash b users)) = 201 \<and>
      length (snd (post_users hash b users)) = length users + 1" if "complete b"
    using that by (simp add: post_users_complete)
  from conflict differ arr show ?thesis by blast
qed

theorem duplicate_address_conflict_witness:
  "complete \<lparr>name = Some ''John Doe'', email = Some ''test@example.com'', password = Some ''password123''\<rparr> \<and>
   ''test@example.com'' \<in> doc_email ` set [\<lparr>doc_id = ''63f9'', doc_name = ''Test User'',
        doc_email = ''test@example.com'', doc_password = ''$2b$12$password''\<rparr>] \<and>
   post_users_doc (append ''$2b$12$'') ''63fa''
      \<lparr>name = Some ''John Doe'', email = Some ''test@example.com'', password = Some ''password123''\<rparr>
      [\<lparr>doc_id = ''63f9'', doc_name = ''Test User'', doc_email = ''test@example.com'',
        doc_password = ''$2b$12$password''\<rparr>]
     = (error_reply 409 ''Email already exists'',
        [\<lparr>doc_id = ''63f9'', doc_name = ''Test User'', doc_email = ''test@example.com'',
          doc_password = ''$2b$12$password''\<rparr>]) \<and>
   status (fst (post_users (append ''$2b$12$'')
      \<lparr>name = Some ''John Doe'', email = Some ''test@example.com'', password = Some ''password123''\<rparr>
      [])) = 201"
  using duplicate_address_conflict
          [of "\<lparr>name = Some ''John Doe'', email = Some ''test@example.com'', password = Some ''password123''\<rparr>"
              "[\<lparr>doc_id = ''63f9'', doc_name = ''Test User'', doc_email = ''test@example.com'',
                 doc_password = ''$2b$12$password''\<rparr>]"
              "append ''$2b$12$''" "''63fa''" "[]"]
  by (simp add: complete_def)

section \<open>Validation of an update\<close>

text \<open>
  Claim C6 as stated fails where it says that one policy is applied to all update handling:
  the same request, with \<open>name\<close> alone, for the same stored account is refused by the array
  variant (every field is required) and carried out by the relational variant (one field
  is enough).
\<close>

theorem update_policy_counterexample:
  "put_user (append ''$2b$12$'') (Some 1)
      \<lparr>name = Some ''Jane Doe'', email = None, password = None\<rparr>
      [\<lparr>user_id = 1, user_name = ''John Doe'', user_email = ''john@example.com'',
        user_password = ''$2b$12$password123''\<rparr>]
     = (error_reply 400 ''Missing required fields'',
        [\<lparr>user_id = 1, user_name = ''John Doe'', user_email = ''john@example.com'',
          user_password = ''$2b$12$password123''\<rparr>]) \<and>
   put_user_sql (append ''$2b$12$'')
      (update_returning
         [\<lparr>user_id = 1, user_name = ''John Doe'', user_email = ''john@example.com'',
           user_password = ''$2b$12$password123''\<rparr>])
      (Some 1) \<lparr>name = Some ''Jane Doe'', email = None, password = None\<rparr>
     = reply 200 (user_json \<lparr>user_id = 1, user_name = ''Jane Doe'',
                    user_email = ''john@example.com'', user_password = ''$2b$12$password123''\<rparr>)"
  by (simp add: put_user_alone put_user_sql_def update_returning_def coalesce_def)

text \<open>
  Claim C6, amended. Each update handler applies one policy, and the policies differ between
  the variants. The array variant and \<open>validateInput\<close> of the document-store variant
  answer 400 with \<open>{ error: 'Missing required fields' }\<close> exactly when one of the three
  fields is absent or empty. The relational variant, for an identifier that parses as a
  number, answers 400 with \<open>{ error: 'No fields to update' }\<close> exactly when all three are
  absent or empty, and otherwise 200, 404 or 500; an identifier that does not parse is
  answered 400 with \<open>{ error: 'Invalid user ID' }\<close> before the fields are looked at.
\<close>

theorem update_validation_policies:
  "(\<not> complete b \<longrightarrow>
      put_user hash userId b users = (error_reply 400 ''Missing required fields'', users)) \<and>
   (complete b \<longrightarrow> status (fst (put_user hash userId b users)) \<noteq> 400) \<and>
   (\<not> complete b \<longrightarrow> validateInput b = Some (error_reply 400 ''Missing required fields'')) \<and>
   (complete b \<longrightarrow> validateInput b = None) \<and>
   (falsy (name b) \<and> falsy (email b) \<and> falsy (password b) \<longrightarrow>
      put_user_sql hash query (Some i) b = error_reply 400 ''No fields to update'') \<and>
   (\<not> (falsy (name b) \<and> falsy (email b) \<and> falsy (password b)) \<longrightarrow>
      status (put_user_sql hash query (Some i) b) \<in> {200, 404, 500}) \<and>
   put_user_sql hash query None b = error_reply 400 ''Invalid user ID''"
proof -
  have arr_ok: "status (fst (put_user hash userId b users)) \<noteq> 400" if c: "complete b"
  proof (cases "\<exists>u\<in>set users. id_is userId u")
    case True
    with c show ?thesis by (simp add: put_user_known)
  next
    case False
    then have "\<forall>u\<in>set users. \<not> id_is userId u" by simp
    with c show ?thesis by (simp add: put_user_unknown)
  qed
  have mw_bad: "validateInput b = Some (error_reply 400 ''Missing required fields'')"
    if "\<not> complete b"
    using that by (auto simp: validateInput_def complete_def)
  have mw_ok: "validateInput b = None" if "complete b"
    using that by (simp add: validateInput_def complete_def)
  have sql_none: "put_user_sql hash query (Some i) b = error_reply 400 ''No fields to update''"
    if "falsy (name b) \<and> falsy (email b) \<and> falsy (password b)"
    using that by (simp add: put_user_sql_def)
  have sql_some: "status (put_user_sql hash query (Some i) b) \<in> {200, 404, 500}"
    if "\<not> (falsy (name b) \<and> falsy (email b) \<and> falsy (password b))"
    using that
    by (auto simp: put_user_sql_def Let_def split: query_result.splits list.splits)
  have sql_nan: "put_user_sql hash query None b = error_reply 400 ''Invalid user ID''"
    by (simp add: put_user_sql_def)
  from arr_ok mw_bad mw_ok sql_none sql_some sql_nan show ?thesis
    by (simp add: put_user_incomplete)
qed

theorem update_validation_policies_witness:
  "\<not> complete \<lparr>name = None, email = None, password = None\<rparr> \<and>
   put_user (append ''$2b$12$'') (Some 1) \<lparr>name = None, email = None, password = None\<rparr> []
     = (error_reply 400 ''Missing required fields'', []) \<and>
   validateInput \<lparr>name = None, email = None, password = None\<rparr>
     = Some (error_reply 400 ''Missing required fields'') \<and>
   put_user_sql (append ''$2b$12$'') (update_returning []) (Some 1)
      \<lparr>name = None, email = None, password = None\<rparr>
     = error_reply 400 ''No fields to update'' \<and>
   complete \<lparr>name = Some ''Jane Doe'', email = Some ''jane@example.com'', password = Some ''newpassword''\<rparr> \<and>
   validateInput \<lparr>name = Some ''Jane Doe'', email = Some ''jane@example.com'', password = Some ''newpassword''\<rparr>
     = None \<and>
   status (fst (put_user (append ''$2b$12$'') (Some 1)
      \<lparr>name = Some ''Jane Doe'', email = Some ''jane@example.com'', password = Some ''newpassword''\<rparr> []))
     \<noteq> 400 \<and>
   status (put_user_sql (append ''$2b$12$'') (update_returning []) (Some 1)
      \<lparr>name = Some ''Jane Doe'', email = Some ''jane@example.com'', password = Some ''newpassword''\<rparr>)
     \<in> {200, 404, 500}"
  using update_validation_policies
          [of "\<lparr>name = None, email = None, password = None\<rparr>" "append ''$2b$12$''" "Some 1" "[]"
              "update_returning []" 1]
        update_validation_policies
          [of "\<lparr>name = Some ''Jane Doe'', email = Some ''jane@example.com'', password = Some ''newpassword''\<rparr>"
              "append ''$2b$12$''" "Some 1" "[]" "update_returning []" 1]
  by (simp add: complete_def)

section \<open>Unknown identifiers, and reading after a delete\<close>




section \<open>The identifier across an update\<close>

text \<open>
  Claim C8, evaluated on the array variant at an update that another request overtakes.
  The array holds the accounts 1, 2 and 3. An update of account 2 with a complete body finds
  index 1 and waits for the hash; a delete of account 1 is served meanwhile and leaves the
  accounts 2 and 3 at the indices 0 and 1; the update then writes at index 1 and answers
  200. The claim asks that a successful update changes the targeted account in place and
  that every stored account keeps its identifier. Here the targeted account, at index 0, is
  left as it was, and the account stored at index 1, whose identifier was 3, now has the
  identifier 2.
\<close>

theorem update_during_hash_moves_write:
  "put_user_lookup (Some 2)
      \<lparr>name = Some ''Jane Doe'', email = Some ''jane@example.com'', password = Some ''newpassword''\<rparr>
      [\<lparr>user_id = 1, user_name = ''A'', user_email = ''a@x'', user_password = ''ha''\<rparr>,
       \<lparr>user_id = 2, user_name = ''B'', user_email = ''b@x'', user_password = ''hb''\<rparr>,
       \<lparr>user_id = 3, user_name = ''C'', user_email = ''c@x'', user_password = ''hc''\<rparr>]
     = Awaiting 1 \<and>
   delete_user (Some 1)
      [\<lparr>user_id = 1, user_name = ''A'', user_email = ''a@x'', user_password = ''ha''\<rparr>,
       \<lparr>user_id = 2, user_name = ''B'', user_email = ''b@x'', user_password = ''hb''\<rparr>,
       \<lparr>user_id = 3, user_name = ''C'', user_email = ''c@x'', user_password = ''hc''\<rparr>]
     = (\<lparr>status = 204, payload = None\<rparr>,
        [\<lparr>user_id = 2, user_name = ''B'', user_email = ''b@x'', user_password = ''hb''\<rparr>,
         \<lparr>user_id = 3, user_name = ''C'', user_email = ''c@x'', user_password = ''hc''\<rparr>]) \<and>
   put_user_write hash (Some 2)
      \<lparr>name = Some ''Jane Doe'', email = Some ''jane@example.com'', password = Some ''newpassword''\<rparr>
      1
      [\<lparr>user_id = 2, user_name = ''B'', user_email = ''b@x'', user_password = ''hb''\<rparr>,
       \<lparr>user_id = 3, user_name = ''C'', user_email = ''c@x'', user_password = ''hc''\<rparr>]
     = (reply 200 (user_json \<lparr>user_id = 2, user_name = ''Jane Doe'', user_email = ''jane@example.com'',
                     user_password = hash ''newpassword''\<rparr>),
        [Some \<lparr>user_id = 2, user_name = ''B'', user_email = ''b@x'', user_password = ''hb''\<rparr>,
         Some \<lparr>user_id = 2, user_name = ''Jane Doe'', user_email = ''jane@example.com'',
               user_password = hash ''newpassword''\<rparr>])"
  by (simp add: put_user_lookup_def put_user_write_def delete_user_def id_is_def Let_def)

end
